theory Spec2Isabelle
  imports Complex_Main
begin

section \<open>The dense linear-algebra substrate\<close>

text \<open>
  The two classes of \<^verbatim>\<open>Rotation.cpp\<close> and \<^verbatim>\<open>Transformation.cpp\<close> store fixed-size Eigen
  matrices of \<^verbatim>\<open>double\<close>. A \<^verbatim>\<open>double\<close> is modelled as a \<^typ>\<open>real\<close>: every statement
  below is a statement under exact arithmetic, with no rounding, no infinities and no NaN.
  Matrices are stored row by row: \<open>Matrix3d a00 a01 a02 a10 a11 a12 a20 a21 a22\<close>.
\<close>

datatype Vector3d = Vector3d real real real

datatype Matrix3d = Matrix3d real real real  real real real  real real real

datatype Vector4d = Vector4d real real real real

datatype Matrix4d =
  Matrix4d real real real real  real real real real  real real real real  real real real real

datatype Vector6d = Vector6d real real real real real real

type_synonym VectorXd = "real list"

definition Matrix3d_Identity :: Matrix3d where
  "Matrix3d_Identity = Matrix3d 1 0 0  0 1 0  0 0 1"

definition Vector3d_Zero :: Vector3d where
  "Vector3d_Zero = Vector3d 0 0 0"

definition Matrix4d_Identity :: Matrix4d where
  "Matrix4d_Identity = Matrix4d 1 0 0 0  0 1 0 0  0 0 1 0  0 0 0 1"

fun transpose3 :: "Matrix3d \<Rightarrow> Matrix3d" where
  "transpose3 (Matrix3d a00 a01 a02 a10 a11 a12 a20 a21 a22) =
     Matrix3d a00 a10 a20  a01 a11 a21  a02 a12 a22"

fun determinant :: "Matrix3d \<Rightarrow> real" where
  "determinant (Matrix3d a00 a01 a02 a10 a11 a12 a20 a21 a22) =
     a00 * (a11 * a22 - a12 * a21) - a01 * (a10 * a22 - a12 * a20)
       + a02 * (a10 * a21 - a11 * a20)"

fun mat_mul :: "Matrix3d \<Rightarrow> Matrix3d \<Rightarrow> Matrix3d" where
  "mat_mul (Matrix3d a00 a01 a02 a10 a11 a12 a20 a21 a22)
           (Matrix3d b00 b01 b02 b10 b11 b12 b20 b21 b22) =
     Matrix3d
       (a00 * b00 + a01 * b10 + a02 * b20) (a00 * b01 + a01 * b11 + a02 * b21)
         (a00 * b02 + a01 * b12 + a02 * b22)
       (a10 * b00 + a11 * b10 + a12 * b20) (a10 * b01 + a11 * b11 + a12 * b21)
         (a10 * b02 + a11 * b12 + a12 * b22)
       (a20 * b00 + a21 * b10 + a22 * b20) (a20 * b01 + a21 * b11 + a22 * b21)
         (a20 * b02 + a21 * b12 + a22 * b22)"

fun mat_vec :: "Matrix3d \<Rightarrow> Vector3d \<Rightarrow> Vector3d" where
  "mat_vec (Matrix3d a00 a01 a02 a10 a11 a12 a20 a21 a22) (Vector3d x y z) =
     Vector3d (a00 * x + a01 * y + a02 * z) (a10 * x + a11 * y + a12 * z)
       (a20 * x + a21 * y + a22 * z)"

fun scal_mat :: "real \<Rightarrow> Matrix3d \<Rightarrow> Matrix3d" where
  "scal_mat k (Matrix3d a00 a01 a02 a10 a11 a12 a20 a21 a22) =
     Matrix3d (k * a00) (k * a01) (k * a02)  (k * a10) (k * a11) (k * a12)
       (k * a20) (k * a21) (k * a22)"

fun vec_scal :: "Vector3d \<Rightarrow> real \<Rightarrow> Vector3d" where
  "vec_scal (Vector3d x y z) k = Vector3d (x * k) (y * k) (z * k)"

fun vec_add :: "Vector3d \<Rightarrow> Vector3d \<Rightarrow> Vector3d" where
  "vec_add (Vector3d x y z) (Vector3d u v w) = Vector3d (x + u) (y + v) (z + w)"

fun mat_add :: "Matrix3d \<Rightarrow> Matrix3d \<Rightarrow> Matrix3d" where
  "mat_add (Matrix3d a00 a01 a02 a10 a11 a12 a20 a21 a22)
           (Matrix3d b00 b01 b02 b10 b11 b12 b20 b21 b22) =
     Matrix3d (a00 + b00) (a01 + b01) (a02 + b02)  (a10 + b10) (a11 + b11) (a12 + b12)
       (a20 + b20) (a21 + b21) (a22 + b22)"

fun mat_sub :: "Matrix3d \<Rightarrow> Matrix3d \<Rightarrow> Matrix3d" where
  "mat_sub (Matrix3d a00 a01 a02 a10 a11 a12 a20 a21 a22)
           (Matrix3d b00 b01 b02 b10 b11 b12 b20 b21 b22) =
     Matrix3d (a00 - b00) (a01 - b01) (a02 - b02)  (a10 - b10) (a11 - b11) (a12 - b12)
       (a20 - b20) (a21 - b21) (a22 - b22)"

fun trace :: "Matrix3d \<Rightarrow> real" where
  "trace (Matrix3d a00 a01 a02 a10 a11 a12 a20 a21 a22) = a00 + a11 + a22"

fun col :: "Matrix3d \<Rightarrow> nat \<Rightarrow> Vector3d" where
  "col (Matrix3d a00 a01 a02 a10 a11 a12 a20 a21 a22) k =
     (if k = 0 then Vector3d a00 a10 a20
      else if k = 1 then Vector3d a01 a11 a21
      else Vector3d a02 a12 a22)"

fun norm3 :: "Vector3d \<Rightarrow> real" where
  "norm3 (Vector3d x y z) = sqrt (x * x + y * y + z * z)"

primrec mat_pow :: "Matrix3d \<Rightarrow> nat \<Rightarrow> Matrix3d" where
  "mat_pow A 0 = Matrix3d_Identity"
| "mat_pow A (Suc n) = mat_mul (mat_pow A n) A"

text \<open>Blocks of a 4x4 matrix and of a 4-vector, as the source reads and writes them.\<close>

fun block33 :: "Matrix4d \<Rightarrow> Matrix3d" where
  "block33 (Matrix4d t00 t01 t02 t03 t10 t11 t12 t13 t20 t21 t22 t23 t30 t31 t32 t33) =
     Matrix3d t00 t01 t02  t10 t11 t12  t20 t21 t22"

fun block31 :: "Matrix4d \<Rightarrow> Vector3d" where
  "block31 (Matrix4d t00 t01 t02 t03 t10 t11 t12 t13 t20 t21 t22 t23 t30 t31 t32 t33) =
     Vector3d t03 t13 t23"

fun set_topLeftCorner :: "Matrix4d \<Rightarrow> Matrix3d \<Rightarrow> Matrix4d" where
  "set_topLeftCorner
     (Matrix4d t00 t01 t02 t03 t10 t11 t12 t13 t20 t21 t22 t23 t30 t31 t32 t33)
     (Matrix3d a00 a01 a02 a10 a11 a12 a20 a21 a22) =
     Matrix4d a00 a01 a02 t03  a10 a11 a12 t13  a20 a21 a22 t23  t30 t31 t32 t33"

fun set_topRightCorner :: "Matrix4d \<Rightarrow> Vector3d \<Rightarrow> Matrix4d" where
  "set_topRightCorner
     (Matrix4d t00 t01 t02 t03 t10 t11 t12 t13 t20 t21 t22 t23 t30 t31 t32 t33)
     (Vector3d x y z) =
     Matrix4d t00 t01 t02 x  t10 t11 t12 y  t20 t21 t22 z  t30 t31 t32 t33"

fun mat4_vec4 :: "Matrix4d \<Rightarrow> Vector4d \<Rightarrow> Vector4d" where
  "mat4_vec4 (Matrix4d t00 t01 t02 t03 t10 t11 t12 t13 t20 t21 t22 t23 t30 t31 t32 t33)
             (Vector4d x y z w) =
     Vector4d (t00 * x + t01 * y + t02 * z + t03 * w) (t10 * x + t11 * y + t12 * z + t13 * w)
       (t20 * x + t21 * y + t22 * z + t23 * w) (t30 * x + t31 * y + t32 * z + t33 * w)"

fun head3 :: "Vector4d \<Rightarrow> Vector3d" where
  "head3 (Vector4d x y z w) = Vector3d x y z"

fun coeff3 :: "Vector4d \<Rightarrow> real" where
  "coeff3 (Vector4d x y z w) = w"

fun set_head3 :: "Vector4d \<Rightarrow> Vector3d \<Rightarrow> Vector4d" where
  "set_head3 (Vector4d x y z w) (Vector3d a b c) = Vector4d a b c w"

fun set_coeff3 :: "Vector4d \<Rightarrow> real \<Rightarrow> Vector4d" where
  "set_coeff3 (Vector4d x y z w) k = Vector4d x y z k"

text \<open>
  Eigen's implicit conversion of a dynamically-sized vector to a fixed-size one. The
  source reaches it only after the check of \<^verbatim>\<open>rows()\<close>; for any other length the model
  gives the zero vector, a value no caller below ever sees.
\<close>

fun Vector3d_of :: "VectorXd \<Rightarrow> Vector3d" where
  "Vector3d_of [x, y, z] = Vector3d x y z"
| "Vector3d_of _ = Vector3d 0 0 0"

fun Vector6d_of :: "VectorXd \<Rightarrow> Vector6d" where
  "Vector6d_of [a, b, c, d, e, f] = Vector6d a b c d e f"
| "Vector6d_of _ = Vector6d 0 0 0 0 0 0"

section \<open>The operations the two classes call\<close>

text \<open>
  \<^verbatim>\<open>lgmath/so3/Operations.hpp\<close> and \<^verbatim>\<open>lgmath/se3/Operations.hpp\<close> are included by the two
  files but are not part of them. The functions the classes call from there are taken as
  parameters, gathered in one record; \<open>vec2tran\<close> returns the pair it writes through its
  two output pointers.
\<close>

record Operations =
  vec2rot :: "Vector3d \<Rightarrow> nat \<Rightarrow> Matrix3d"
  rot2vec :: "Matrix3d \<Rightarrow> Vector3d"
  vec2tran :: "Vector6d \<Rightarrow> nat \<Rightarrow> Matrix3d \<times> Vector3d"
  tran2vec :: "Matrix3d \<Rightarrow> Vector3d \<Rightarrow> Vector6d"

text \<open>
  Modelled from the spec: the default argument of \<open>numTerms\<close>, declared in the headers
  that are not among the sources, is 0 (section 6: \<open>numTerms: uint = 0\<close>).
\<close>

definition numTerms_default :: nat where
  "numTerms_default = 0"

text \<open>
  The two constructors that can throw are modelled together with the calls they have made
  to the exponential maps by the time they return or throw: a pair of that log, in the
  order of the calls, and the outcome. A call through \<open>logged_vec2rot\<close> or
  \<open>logged_vec2tran\<close> is the call of the map and its entry in the log at once.
\<close>

datatype call = call_vec2rot Vector3d nat | call_vec2tran Vector6d nat

definition logged_vec2rot :: "Operations \<Rightarrow> Vector3d \<Rightarrow> nat \<Rightarrow> call list \<times> Matrix3d" where
  "logged_vec2rot ops aaxis numTerms = ([call_vec2rot aaxis numTerms], vec2rot ops aaxis numTerms)"

definition logged_vec2tran ::
    "Operations \<Rightarrow> Vector6d \<Rightarrow> nat \<Rightarrow> call list \<times> (Matrix3d \<times> Vector3d)" where
  "logged_vec2tran ops xi numTerms = ([call_vec2tran xi numTerms], vec2tran ops xi numTerms)"

definition calls_made :: "call list \<times> 'a \<Rightarrow> call list" where
  "calls_made t = fst t"

definition outcome :: "call list \<times> 'a \<Rightarrow> 'a" where
  "outcome t = snd t"

section \<open>so3::Rotation\<close>

text \<open>
  \<^verbatim>\<open>Rotation.cpp\<close>. The class has the one member \<open>C_ba_\<close>; its field is called
  \<open>rot_C_ba\<close> here, the member of \<open>Transformation\<close> of the same name \<open>C_ba\<close>. A
  constructor is a function to the class (where it can throw: to the log of its calls
  and an exception or the class), and an operator that assigns to its receiver returns
  the new receiver.
\<close>

record Rotation =
  rot_C_ba :: Matrix3d

datatype exception = logic_error string | invalid_argument string

text \<open>
  \<^verbatim>\<open>std::logic_error\<close> is the standard's class of failures for a violated precondition,
  and \<^verbatim>\<open>std::invalid_argument\<close> derives from it: a handler for \<^verbatim>\<open>logic_error\<close> catches
  both, a handler for \<^verbatim>\<open>invalid_argument\<close> only the second. Both constructors below throw
  from the check of their argument's dimension, with a message that names it.
\<close>

fun is_logic_error :: "exception \<Rightarrow> bool" where
  "is_logic_error (logic_error m) = True"
| "is_logic_error (invalid_argument m) = True"

definition Rotation_default :: Rotation where
  "Rotation_default = \<lparr>rot_C_ba = Matrix3d_Identity\<rparr>"

definition Rotation_of_matrix :: "Operations \<Rightarrow> Matrix3d \<Rightarrow> bool \<Rightarrow> Rotation" where
  "Rotation_of_matrix ops C reproj =
     (if reproj then \<lparr>rot_C_ba = vec2rot ops (rot2vec ops C) numTerms_default\<rparr>
      else \<lparr>rot_C_ba = C\<rparr>)"

definition Rotation_of_aaxis :: "Operations \<Rightarrow> Vector3d \<Rightarrow> nat \<Rightarrow> Rotation" where
  "Rotation_of_aaxis ops aaxis_ab numTerms = \<lparr>rot_C_ba = vec2rot ops aaxis_ab numTerms\<rparr>"

definition Rotation_of_VectorXd ::
    "Operations \<Rightarrow> VectorXd \<Rightarrow> call list \<times> (exception + Rotation)" where
  "Rotation_of_VectorXd ops aaxis_ab =
     (if length aaxis_ab \<noteq> 3
      then ([], Inl (logic_error
        ''Tried to initialize a rotation from a VectorXd that was not dimension 3''))
      else (case logged_vec2rot ops (Vector3d_of aaxis_ab) numTerms_default of
              (calls, C) \<Rightarrow> (calls, Inr \<lparr>rot_C_ba = C\<rparr>)))"

definition Rotation_matrix :: "Rotation \<Rightarrow> Matrix3d" where
  "Rotation_matrix R = rot_C_ba R"

definition Rotation_vec :: "Operations \<Rightarrow> Rotation \<Rightarrow> Vector3d" where
  "Rotation_vec ops R = rot2vec ops (rot_C_ba R)"

definition Rotation_inverse :: "Rotation \<Rightarrow> Rotation" where
  "Rotation_inverse R = Rotation_default\<lparr>rot_C_ba := transpose3 (rot_C_ba R)\<rparr>"

definition Rotation_mul_assign :: "Rotation \<Rightarrow> Rotation \<Rightarrow> Rotation" where
  "Rotation_mul_assign this C_rhs =
     this\<lparr>rot_C_ba := mat_mul (rot_C_ba this) (rot_C_ba C_rhs)\<rparr>"

definition Rotation_mul :: "Rotation \<Rightarrow> Rotation \<Rightarrow> Rotation" where
  "Rotation_mul this C_rhs = (let temp = this in Rotation_mul_assign temp C_rhs)"

definition Rotation_div_assign :: "Rotation \<Rightarrow> Rotation \<Rightarrow> Rotation" where
  "Rotation_div_assign this C_rhs =
     this\<lparr>rot_C_ba := mat_mul (rot_C_ba this) (transpose3 (rot_C_ba C_rhs))\<rparr>"

definition Rotation_div :: "Rotation \<Rightarrow> Rotation \<Rightarrow> Rotation" where
  "Rotation_div this C_rhs = (let temp = this in Rotation_div_assign temp C_rhs)"

definition Rotation_apply :: "Rotation \<Rightarrow> Vector3d \<Rightarrow> Vector3d" where
  "Rotation_apply this p_a = mat_vec (rot_C_ba this) p_a"

section \<open>se3::Transformation\<close>

text \<open>
  \<^verbatim>\<open>Transformation.cpp\<close>. The members are \<open>C_ba_\<close> and \<open>r_ab_inb_\<close>. Every method
  that reprojects takes the absent so3 maps through the parameter \<open>ops\<close>; the tolerance of
  \<open>reproject\<close> is the literal \<open>1e-6\<close> of the source.
\<close>

record Transformation =
  C_ba :: Matrix3d
  r_ab_inb :: Vector3d

definition reproject :: "Operations \<Rightarrow> bool \<Rightarrow> Transformation \<Rightarrow> Transformation" where
  "reproject ops force this =
     (if force \<or> \<bar>1 - determinant (C_ba this)\<bar> > 1 / 1000000
      then this\<lparr>C_ba := vec2rot ops (rot2vec ops (C_ba this)) numTerms_default\<rparr>
      else this)"

definition Transformation_default :: Transformation where
  "Transformation_default = \<lparr>C_ba = Matrix3d_Identity, r_ab_inb = Vector3d_Zero\<rparr>"

definition Transformation_of_Matrix4d :: "Operations \<Rightarrow> Matrix4d \<Rightarrow> Transformation" where
  "Transformation_of_Matrix4d ops T =
     reproject ops False \<lparr>C_ba = block33 T, r_ab_inb = block31 T\<rparr>"

text \<open>
  The constructor from a rotation and \<open>r_ba_ina\<close> assigns the rotation, reprojects, and
  only then assigns the translation; the translation member is default-initialised (left
  unset) until then, which the model renders as the zero vector.
\<close>

definition Transformation_of_C_r ::
    "Operations \<Rightarrow> Matrix3d \<Rightarrow> Vector3d \<Rightarrow> Transformation" where
  "Transformation_of_C_r ops C r_ba_ina =
     (let this = reproject ops False \<lparr>C_ba = C, r_ab_inb = Vector3d_Zero\<rparr>
      in this\<lparr>r_ab_inb := mat_vec (scal_mat (- 1) (C_ba this)) r_ba_ina\<rparr>)"

definition Transformation_of_xi :: "Operations \<Rightarrow> Vector6d \<Rightarrow> nat \<Rightarrow> Transformation" where
  "Transformation_of_xi ops xi_ab numTerms =
     (case vec2tran ops xi_ab numTerms of (C, r) \<Rightarrow> \<lparr>C_ba = C, r_ab_inb = r\<rparr>)"

definition Transformation_of_VectorXd ::
    "Operations \<Rightarrow> VectorXd \<Rightarrow> call list \<times> (exception + Transformation)" where
  "Transformation_of_VectorXd ops xi_ab =
     (if length xi_ab \<noteq> 6
      then ([], Inl (invalid_argument
        ''Tried to initialize a transformation from a VectorXd that was not dimension 6''))
      else (case logged_vec2tran ops (Vector6d_of xi_ab) 0 of
              (calls, (C, r)) \<Rightarrow> (calls, Inr \<lparr>C_ba = C, r_ab_inb = r\<rparr>)))"

definition Transformation_matrix :: "Transformation \<Rightarrow> Matrix4d" where
  "Transformation_matrix this =
     (let T_ba = Matrix4d_Identity;
          T_ba = set_topLeftCorner T_ba (C_ba this);
          T_ba = set_topRightCorner T_ba (r_ab_inb this)
      in T_ba)"

definition Transformation_r_ba_ina :: "Transformation \<Rightarrow> Vector3d" where
  "Transformation_r_ba_ina this =
     mat_vec (scal_mat (- 1) (transpose3 (C_ba this))) (r_ab_inb this)"

definition Transformation_vec :: "Operations \<Rightarrow> Transformation \<Rightarrow> Vector6d" where
  "Transformation_vec ops this = tran2vec ops (C_ba this) (r_ab_inb this)"

definition Transformation_inverse :: "Operations \<Rightarrow> Transformation \<Rightarrow> Transformation" where
  "Transformation_inverse ops this =
     (let temp = Transformation_default;
          temp = temp\<lparr>C_ba := transpose3 (C_ba this)\<rparr>;
          temp = reproject ops False temp;
          temp = temp\<lparr>r_ab_inb := mat_vec (scal_mat (- 1) (C_ba temp)) (r_ab_inb this)\<rparr>
      in temp)"

definition Transformation_mul_assign ::
    "Operations \<Rightarrow> Transformation \<Rightarrow> Transformation \<Rightarrow> Transformation" where
  "Transformation_mul_assign ops this T_rhs =
     (let this = this\<lparr>r_ab_inb :=
                   vec_add (r_ab_inb this) (mat_vec (C_ba this) (r_ab_inb T_rhs))\<rparr>;
          this = this\<lparr>C_ba := mat_mul (C_ba this) (C_ba T_rhs)\<rparr>
      in reproject ops False this)"

definition Transformation_mul ::
    "Operations \<Rightarrow> Transformation \<Rightarrow> Transformation \<Rightarrow> Transformation" where
  "Transformation_mul ops this T_rhs =
     (let temp = this in Transformation_mul_assign ops temp T_rhs)"

definition Transformation_div_assign ::
    "Operations \<Rightarrow> Transformation \<Rightarrow> Transformation \<Rightarrow> Transformation" where
  "Transformation_div_assign ops this T_rhs =
     (let this = this\<lparr>C_ba := mat_mul (C_ba this) (transpose3 (C_ba T_rhs))\<rparr>;
          this = this\<lparr>r_ab_inb :=
                   vec_add (r_ab_inb this)
                     (mat_vec (scal_mat (- 1) (C_ba this)) (r_ab_inb T_rhs))\<rparr>
      in reproject ops False this)"

definition Transformation_div ::
    "Operations \<Rightarrow> Transformation \<Rightarrow> Transformation \<Rightarrow> Transformation" where
  "Transformation_div ops this T_rhs =
     (let temp = this in Transformation_div_assign ops temp T_rhs)"

text \<open>
  In \<open>operator*\<close> on a homogeneous point, \<open>p_b\<close> is declared unset and both of its parts
  are assigned before it is returned; the model starts it at zero.
\<close>

definition Transformation_mul_point :: "Transformation \<Rightarrow> Vector4d \<Rightarrow> Vector4d" where
  "Transformation_mul_point this p_a =
     (let p_b = Vector4d 0 0 0 0;
          p_b = set_head3 p_b
                  (vec_add (mat_vec (C_ba this) (head3 p_a))
                     (vec_scal (r_ab_inb this) (coeff3 p_a)));
          p_b = set_coeff3 p_b (coeff3 p_a)
      in p_b)"

section \<open>Predicates and instances used by the statements\<close>

text \<open>
  Membership in SO(3), exactly: the transpose is a left inverse and the determinant is 1.
\<close>

definition is_SO3 :: "Matrix3d \<Rightarrow> bool" where
  "is_SO3 C \<longleftrightarrow> mat_mul (transpose3 C) C = Matrix3d_Identity \<and> determinant C = 1"

text \<open>The classical adjugate, used only to turn a left inverse into a right inverse.\<close>

fun adjugate :: "Matrix3d \<Rightarrow> Matrix3d" where
  "adjugate (Matrix3d a00 a01 a02 a10 a11 a12 a20 a21 a22) =
     Matrix3d (a11 * a22 - a12 * a21) (a02 * a21 - a01 * a22) (a01 * a12 - a02 * a11)
              (a12 * a20 - a10 * a22) (a00 * a22 - a02 * a20) (a02 * a10 - a00 * a12)
              (a10 * a21 - a11 * a20) (a01 * a20 - a00 * a21) (a00 * a11 - a01 * a10)"

text \<open>
  What a caller sees of a constructor's outcome: an exception that a handler for
  \<open>std::logic_error\<close> catches, or the constructed object.
\<close>

fun throws_logic_error :: "exception + 'a \<Rightarrow> bool" where
  "throws_logic_error (Inl e) = is_logic_error e"
| "throws_logic_error (Inr v) = False"

text \<open>
  The states reachable from valid rotations by the public operations of each class. The
  operands of a composition are themselves reachable. \<open>Rotation\<close> has no \<open>reproject\<close>
  method: it reprojects through its constructor from a matrix, with \<open>reproj\<close> set.
\<close>

inductive reachable_Rotation :: "Operations \<Rightarrow> Rotation \<Rightarrow> bool" for ops where
  rot_valid: "is_SO3 (rot_C_ba R) \<Longrightarrow> reachable_Rotation ops R"
| rot_mul: "reachable_Rotation ops R \<Longrightarrow> reachable_Rotation ops S \<Longrightarrow>
     reachable_Rotation ops (Rotation_mul R S)"
| rot_mul_assign: "reachable_Rotation ops R \<Longrightarrow> reachable_Rotation ops S \<Longrightarrow>
     reachable_Rotation ops (Rotation_mul_assign R S)"
| rot_div: "reachable_Rotation ops R \<Longrightarrow> reachable_Rotation ops S \<Longrightarrow>
     reachable_Rotation ops (Rotation_div R S)"
| rot_div_assign: "reachable_Rotation ops R \<Longrightarrow> reachable_Rotation ops S \<Longrightarrow>
     reachable_Rotation ops (Rotation_div_assign R S)"
| rot_inverse: "reachable_Rotation ops R \<Longrightarrow> reachable_Rotation ops (Rotation_inverse R)"
| rot_reproject: "reachable_Rotation ops R \<Longrightarrow>
     reachable_Rotation ops (Rotation_of_matrix ops (Rotation_matrix R) True)"

inductive reachable_Transformation :: "Operations \<Rightarrow> Transformation \<Rightarrow> bool" for ops where
  tf_valid: "is_SO3 (C_ba T) \<Longrightarrow> reachable_Transformation ops T"
| tf_mul: "reachable_Transformation ops T \<Longrightarrow> reachable_Transformation ops U \<Longrightarrow>
     reachable_Transformation ops (Transformation_mul ops T U)"
| tf_mul_assign: "reachable_Transformation ops T \<Longrightarrow> reachable_Transformation ops U \<Longrightarrow>
     reachable_Transformation ops (Transformation_mul_assign ops T U)"
| tf_div: "reachable_Transformation ops T \<Longrightarrow> reachable_Transformation ops U \<Longrightarrow>
     reachable_Transformation ops (Transformation_div ops T U)"
| tf_div_assign: "reachable_Transformation ops T \<Longrightarrow> reachable_Transformation ops U \<Longrightarrow>
     reachable_Transformation ops (Transformation_div_assign ops T U)"
| tf_inverse: "reachable_Transformation ops T \<Longrightarrow>
     reachable_Transformation ops (Transformation_inverse ops T)"
| tf_reproject: "reachable_Transformation ops T \<Longrightarrow>
     reachable_Transformation ops (reproject ops force T)"

text \<open>
  One instance of the parameters, for evaluating the model at concrete inputs. Its
  \<open>vec2rot\<close> returns the quarter turn about the z axis whatever it is given.
\<close>

definition quarter_turn :: Matrix3d where
  "quarter_turn = Matrix3d 0 (- 1) 0  1 0 0  0 0 1"

definition sample_Operations :: Operations where
  "sample_Operations =
     \<lparr>vec2rot = (\<lambda>v n. quarter_turn),
      rot2vec = (\<lambda>C. Vector3d 0 0 0),
      vec2tran = (\<lambda>xi n. (quarter_turn, Vector3d 0 0 0)),
      tran2vec = (\<lambda>C r. Vector6d 0 0 0 0 0 0)\<rparr>"

section \<open>The so3 maps, from their description\<close>

text \<open>
  \<open>so3::vec2rot\<close> and \<open>so3::rot2vec\<close> live in \<^verbatim>\<open>Operations.cpp\<close>, which is not among the
  sources. What the value classes compute with them is stated above for arbitrary maps. The
  round trip through both is a property of the maps themselves, so for it they are modelled
  from sections 4.1 and 4.2 of the specification. The three angular tolerances, which the
  specification calls small and leaves unspecified, are parameters.
\<close>

text \<open>
  Modelled from the spec: the tolerances of the absent maps. \<open>tol_small_angle\<close> is the
  tolerance below which \<open>vec2rot\<close> returns the identity (4.1); \<open>tol_near_zero\<close> and
  \<open>tol_near_pi\<close> decide "near 0" and "near pi" in \<open>rot2vec\<close> (4.2).
\<close>

record Tolerances =
  tol_small_angle :: real
  tol_near_zero :: real
  tol_near_pi :: real

text \<open>
  Modelled from the spec: the skew-symmetric (cross-product) matrix of a 3-vector, of the
  absent component SkewOps (section 2).
\<close>

fun skew :: "Vector3d \<Rightarrow> Matrix3d" where
  "skew (Vector3d x y z) = Matrix3d 0 (- z) y  z 0 (- x)  (- y) x 0"

text \<open>
  Modelled from the spec: the inverse extraction of SkewOps, written \<open>vec(.)\<close> in section
  4.2; it reads the three entries where \<open>skew\<close> puts \<open>x\<close>, \<open>y\<close> and \<open>z\<close>.
\<close>

fun unskew :: "Matrix3d \<Rightarrow> Vector3d" where
  "unskew (Matrix3d a00 a01 a02 a10 a11 a12 a20 a21 a22) = Vector3d a21 a02 a10"

text \<open>
  Modelled from the spec: the clamping "to [-1, 1] before the inverse cosine" of section
  4.2.
\<close>

definition clamp :: "real \<Rightarrow> real \<Rightarrow> real \<Rightarrow> real" where
  "clamp x lo hi = (if x < lo then lo else if hi < x then hi else x)"

text \<open>
  Modelled from the spec: the series form of the absent \<open>vec2rot\<close> (4.1),
  \<open>I + skew(phi) + skew(phi)^2/2! + ...\<close> up to the power \<open>numTerms\<close>.
\<close>

primrec exp_series :: "Matrix3d \<Rightarrow> nat \<Rightarrow> Matrix3d" where
  "exp_series A 0 = Matrix3d_Identity"
| "exp_series A (Suc n) =
     mat_add (exp_series A n) (scal_mat (1 / fact (Suc n)) (mat_pow A (Suc n)))"

text \<open>
  Modelled from the spec: the absent \<open>so3::vec2rot\<close> (4.1). With \<open>numTerms = 0\<close> and
  \<open>theta\<close> the norm of \<open>phi\<close>: the identity when \<open>theta\<close> is below the tolerance, otherwise
  Rodrigues' formula \<open>I + sin(theta)/theta skew(phi) + (1 - cos(theta))/theta^2 skew(phi)^2\<close>.
  With \<open>numTerms > 0\<close>: the truncated series.
\<close>

definition vec2rot_spec :: "Tolerances \<Rightarrow> Vector3d \<Rightarrow> nat \<Rightarrow> Matrix3d" where
  "vec2rot_spec tol phi numTerms =
     (if numTerms = 0 then
        (let theta = norm3 phi in
         if theta < tol_small_angle tol then Matrix3d_Identity
         else mat_add
                (mat_add Matrix3d_Identity (scal_mat (sin theta / theta) (skew phi)))
                (scal_mat ((1 - cos theta) / (theta * theta)) (mat_mul (skew phi) (skew phi))))
      else exp_series (skew phi) numTerms)"

text \<open>
  Modelled from the spec: the fallback of the absent \<open>so3::rot2vec\<close> near pi (4.2), which
  extracts the axis "from the dominant eigenvector of (R + I)/2 (its diagonal), choosing the
  axis sign consistently with the off-diagonal terms of R". \<open>dominant\<close> is the index of the
  largest diagonal entry (the first one among equals). The axis is the column of
  \<open>(R + I)/2\<close> at that index, scaled to unit norm: its entry on the diagonal is not
  negative where it is dominant, and its other entries carry the signs of the off-diagonal
  terms of \<open>R\<close>.
\<close>

fun dominant :: "Matrix3d \<Rightarrow> nat" where
  "dominant (Matrix3d b00 b01 b02 b10 b11 b12 b20 b21 b22) =
     (if b11 \<le> b00 \<and> b22 \<le> b00 then 0 else if b22 \<le> b11 then 1 else 2)"

text \<open>
  Modelled from the spec: the unit axis that the fallback of the absent \<open>so3::rot2vec\<close>
  returns (4.2; "a unit-norm-scaled axis", section 8).
\<close>

definition near_pi_axis :: "Matrix3d \<Rightarrow> Vector3d" where
  "near_pi_axis R =
     (let B = scal_mat (1 / 2) (mat_add R Matrix3d_Identity);
          c = col B (dominant B)
      in vec_scal c (1 / norm3 c))"

text \<open>
  Modelled from the spec: the absent \<open>so3::rot2vec\<close> (4.2). \<open>theta\<close> is the inverse cosine
  of the clamped \<open>(trace(R) - 1)/2\<close>; near 0 the result is the zero vector, near pi the
  fallback axis times \<open>theta\<close>, otherwise \<open>theta/(2 sin(theta)) vec(R - Rt)\<close>.
\<close>

definition rot2vec_spec :: "Tolerances \<Rightarrow> Matrix3d \<Rightarrow> Vector3d" where
  "rot2vec_spec tol R =
     (let theta = arccos (clamp ((trace R - 1) / 2) (- 1) 1) in
      if theta < tol_near_zero tol then Vector3d_Zero
      else if pi - theta < tol_near_pi tol then vec_scal (near_pi_axis R) theta
      else vec_scal (unskew (mat_sub R (transpose3 R))) (theta / (2 * sin theta)))"

text \<open>The parameters of the classes, with the two so3 maps as described.\<close>

definition spec_so3 :: "Tolerances \<Rightarrow> Operations \<Rightarrow> Operations" where
  "spec_so3 tol ops = ops\<lparr>vec2rot := vec2rot_spec tol, rot2vec := rot2vec_spec tol\<rparr>"

text \<open>One choice of tolerances, for evaluating at concrete inputs.\<close>

definition sample_Tolerances :: Tolerances where
  "sample_Tolerances =
     \<lparr>tol_small_angle = 1 / 1000000, tol_near_zero = 1 / 1000000,
      tol_near_pi = 1 / 1000000\<rparr>"

section \<open>Matrix algebra\<close>

lemma mat_mul_assoc: "mat_mul (mat_mul A B) C = mat_mul A (mat_mul B C)"
  by (cases A; cases B; cases C) (simp add: algebra_simps)

lemma mat_mul_Identity_right: "mat_mul A Matrix3d_Identity = A"
  by (cases A) (simp add: Matrix3d_Identity_def)

lemma mat_mul_Identity_left: "mat_mul Matrix3d_Identity A = A"
  by (cases A) (simp add: Matrix3d_Identity_def)

lemma transpose3_mat_mul: "transpose3 (mat_mul A B) = mat_mul (transpose3 B) (transpose3 A)"
  by (cases A; cases B) (simp add: algebra_simps)

lemma transpose3_transpose3: "transpose3 (transpose3 A) = A"
  by (cases A) simp

lemma determinant_transpose3: "determinant (transpose3 A) = determinant A"
  by (cases A) (simp add: algebra_simps)

lemma determinant_mat_mul: "determinant (mat_mul A B) = determinant A * determinant B"
  by (cases A; cases B) (simp add: algebra_simps)

lemma mat_mul_adjugate: "mat_mul A (adjugate A) = scal_mat (determinant A) Matrix3d_Identity"
  by (cases A) (simp add: Matrix3d_Identity_def algebra_simps)

lemma scal_mat_one: "scal_mat 1 A = A"
  by (cases A) simp

lemma mat_vec_mat_vec: "mat_vec A (mat_vec B v) = mat_vec (mat_mul A B) v"
  by (cases A; cases B; cases v) (simp add: algebra_simps)

lemma mat_mul_scal_mat: "mat_mul A (scal_mat k B) = scal_mat k (mat_mul A B)"
  by (cases A; cases B) (simp add: algebra_simps)

lemma vec_add_neg_Identity:
  "vec_add v (mat_vec (scal_mat (- 1) Matrix3d_Identity) v) = Vector3d_Zero"
  by (cases v) (simp add: Matrix3d_Identity_def Vector3d_Zero_def)

lemma mat_vec_Zero: "mat_vec A Vector3d_Zero = Vector3d_Zero"
  by (cases A) (simp add: Vector3d_Zero_def)

lemma vec_add_Zero_right: "vec_add v Vector3d_Zero = v"
  by (cases v) (simp add: Vector3d_Zero_def)

lemma vec_add_Zero_left: "vec_add Vector3d_Zero v = v"
  by (cases v) (simp add: Vector3d_Zero_def)

lemma mat_vec_Identity: "mat_vec Matrix3d_Identity v = v"
  by (cases v) (simp add: Matrix3d_Identity_def)

text \<open>For a square matrix with determinant 1 a left inverse is a right inverse.\<close>

lemma orthonormal_right:
  assumes "mat_mul (transpose3 C) C = Matrix3d_Identity" and "determinant C = 1"
  shows "mat_mul C (transpose3 C) = Matrix3d_Identity"
proof -
  have adj: "mat_mul C (adjugate C) = Matrix3d_Identity"
    using assms(2) by (simp add: mat_mul_adjugate scal_mat_one)
  have "transpose3 C = mat_mul (transpose3 C) (mat_mul C (adjugate C))"
    by (simp add: adj mat_mul_Identity_right)
  also have "\<dots> = mat_mul (mat_mul (transpose3 C) C) (adjugate C)"
    by (simp add: mat_mul_assoc)
  also have "\<dots> = adjugate C"
    by (simp add: assms(1) mat_mul_Identity_left)
  finally show ?thesis using adj by simp
qed

lemma is_SO3_mat_mul:
  assumes A: "is_SO3 A" and B: "is_SO3 B"
  shows "is_SO3 (mat_mul A B)"
proof -
  have "mat_mul (transpose3 (mat_mul A B)) (mat_mul A B)
      = mat_mul (transpose3 B) (mat_mul (mat_mul (transpose3 A) A) B)"
    by (simp add: transpose3_mat_mul mat_mul_assoc)
  also have "\<dots> = Matrix3d_Identity"
    using A B by (simp add: is_SO3_def mat_mul_Identity_left)
  finally show ?thesis
    using A B by (simp add: is_SO3_def determinant_mat_mul)
qed

lemma is_SO3_transpose3: "is_SO3 A \<Longrightarrow> is_SO3 (transpose3 A)"
  by (simp add: is_SO3_def orthonormal_right transpose3_transpose3 determinant_transpose3)

lemma is_SO3_Identity: "is_SO3 Matrix3d_Identity"
  by (simp add: is_SO3_def Matrix3d_Identity_def)

lemma is_SO3_quarter_turn: "is_SO3 quarter_turn"
  by (simp add: is_SO3_def quarter_turn_def Matrix3d_Identity_def)

section \<open>Reprojection\<close>

lemma reproject_SO3_id: "is_SO3 (C_ba T) \<Longrightarrow> reproject ops False T = T"
  by (simp add: reproject_def is_SO3_def)

lemma reproject_is_SO3:
  "is_SO3 (vec2rot ops (rot2vec ops (C_ba T)) numTerms_default) \<Longrightarrow> is_SO3 (C_ba T) \<Longrightarrow>
     is_SO3 (C_ba (reproject ops force T))"
  by (simp add: reproject_def)

text \<open>
  C1. \<open>reproject force\<close> replaces the stored rotation \<open>C\<close> by \<open>vec2rot (rot2vec C)\<close> when
  \<open>force\<close> is set or \<open>|1 - det C|\<close> exceeds \<open>1e-6\<close>, and in every other case leaves the
  rotation exactly as it was.
\<close>

theorem reproject_rotation:
  "(force \<or> \<bar>1 - determinant (C_ba T)\<bar> > 1 / 1000000 \<longrightarrow>
      C_ba (reproject ops force T) = vec2rot ops (rot2vec ops (C_ba T)) numTerms_default) \<and>
   (\<not> (force \<or> \<bar>1 - determinant (C_ba T)\<bar> > 1 / 1000000) \<longrightarrow>
      C_ba (reproject ops force T) = C_ba T)"
  by (simp add: reproject_def)

theorem reproject_rotation_witness:
  "C_ba (reproject sample_Operations True Transformation_default) = quarter_turn \<and>
   C_ba (reproject sample_Operations False Transformation_default) = Matrix3d_Identity \<and>
   C_ba (reproject sample_Operations False
           \<lparr>C_ba = Matrix3d 2 0 0  0 1 0  0 0 1, r_ab_inb = Vector3d 1 2 3\<rparr>) = quarter_turn \<and>
   C_ba (reproject sample_Operations False
           \<lparr>C_ba = Matrix3d (10000001 / 10000000) 0 0  0 1 0  0 0 1,
            r_ab_inb = Vector3d 1 2 3\<rparr>) = Matrix3d (10000001 / 10000000) 0 0  0 1 0  0 0 1"
  using reproject_rotation [of True Transformation_default sample_Operations]
    reproject_rotation [of False Transformation_default sample_Operations]
    reproject_rotation [of False
      "\<lparr>C_ba = Matrix3d 2 0 0  0 1 0  0 0 1, r_ab_inb = Vector3d 1 2 3\<rparr>" sample_Operations]
    reproject_rotation [of False
      "\<lparr>C_ba = Matrix3d (10000001 / 10000000) 0 0  0 1 0  0 0 1,
        r_ab_inb = Vector3d 1 2 3\<rparr>" sample_Operations]
  by (simp add: sample_Operations_def Transformation_default_def Matrix3d_Identity_def)

text \<open>
  C2. \<open>reproject\<close> never touches the stored translation \<open>r_ab_inb\<close>, whatever the flag
  and whatever the rotation: only the rotation block can change.
\<close>

theorem reproject_keeps_translation:
  "r_ab_inb (reproject ops force T) = r_ab_inb T"
  by (simp add: reproject_def)

section \<open>Construction\<close>

text \<open>
  The classes of the two exceptions: the \<open>Rotation\<close> constructor throws a
  \<open>std::logic_error\<close> itself, the \<open>Transformation\<close> constructor the derived
  \<open>std::invalid_argument\<close>.
\<close>

lemma VectorXd_constructors_exception_classes:
  "(length xs \<noteq> 3 \<longrightarrow>
      outcome (Rotation_of_VectorXd ops xs) = Inl (logic_error
        ''Tried to initialize a rotation from a VectorXd that was not dimension 3'')) \<and>
   (length ys \<noteq> 6 \<longrightarrow>
      outcome (Transformation_of_VectorXd ops ys) = Inl (invalid_argument
        ''Tried to initialize a transformation from a VectorXd that was not dimension 6''))"
  by (simp add: Rotation_of_VectorXd_def Transformation_of_VectorXd_def outcome_def)

text \<open>
  When the length is right, each constructor has called its exponential map exactly once,
  on the converted vector.
\<close>

lemma VectorXd_constructors_calls:
  "(length xs = 3 \<longrightarrow>
      calls_made (Rotation_of_VectorXd ops xs)
        = [call_vec2rot (Vector3d_of xs) numTerms_default] \<and>
      outcome (Rotation_of_VectorXd ops xs)
        = Inr \<lparr>rot_C_ba = vec2rot ops (Vector3d_of xs) numTerms_default\<rparr>) \<and>
   (length ys = 6 \<longrightarrow>
      calls_made (Transformation_of_VectorXd ops ys) = [call_vec2tran (Vector6d_of ys) 0] \<and>
      outcome (Transformation_of_VectorXd ops ys)
        = Inr \<lparr>C_ba = fst (vec2tran ops (Vector6d_of ys) 0),
               r_ab_inb = snd (vec2tran ops (Vector6d_of ys) 0)\<rparr>)"
  by (simp add: Rotation_of_VectorXd_def Transformation_of_VectorXd_def outcome_def
      calls_made_def logged_vec2rot_def logged_vec2tran_def split: prod.splits)

text \<open>
  C3. Constructing a \<open>Rotation\<close> from a dynamically-sized vector throws a failure of the
  logic-error family, the failure for an invalid argument, if and only if the length of the
  vector is not 3; constructing a \<open>Transformation\<close> throws one if and only if the length
  is not 6. In each failing case the exception is thrown before any exponential map has
  been called: the log of calls is empty.
\<close>

theorem VectorXd_constructors_throw:
  "(throws_logic_error (outcome (Rotation_of_VectorXd ops xs)) \<longleftrightarrow> length xs \<noteq> 3) \<and>
   (throws_logic_error (outcome (Transformation_of_VectorXd ops ys)) \<longleftrightarrow> length ys \<noteq> 6) \<and>
   (length xs \<noteq> 3 \<longrightarrow> calls_made (Rotation_of_VectorXd ops xs) = []) \<and>
   (length ys \<noteq> 6 \<longrightarrow> calls_made (Transformation_of_VectorXd ops ys) = [])"
  by (simp add: Rotation_of_VectorXd_def Transformation_of_VectorXd_def outcome_def
      calls_made_def split: prod.splits)

theorem VectorXd_constructors_throw_witness:
  "length [1, 2, 3, 4 :: real] \<noteq> 3 \<and>
   throws_logic_error (outcome (Rotation_of_VectorXd sample_Operations [1, 2, 3, 4])) \<and>
   calls_made (Rotation_of_VectorXd sample_Operations [1, 2, 3, 4]) = [] \<and>
   \<not> throws_logic_error (outcome (Rotation_of_VectorXd sample_Operations [1, 2, 3])) \<and>
   length [1, 2, 3, 4, 5 :: real] \<noteq> 6 \<and>
   throws_logic_error
     (outcome (Transformation_of_VectorXd sample_Operations [1, 2, 3, 4, 5])) \<and>
   calls_made (Transformation_of_VectorXd sample_Operations [1, 2, 3, 4, 5]) = [] \<and>
   \<not> throws_logic_error
       (outcome (Transformation_of_VectorXd sample_Operations [1, 2, 3, 4, 5, 6]))"
  using VectorXd_constructors_throw [where ops = sample_Operations and xs = "[1, 2, 3, 4]"
      and ys = "[1, 2, 3, 4, 5]"]
    VectorXd_constructors_throw [where ops = sample_Operations and xs = "[1, 2, 3]"
      and ys = "[1, 2, 3, 4, 5, 6]"]
  by simp

text \<open>
  C8. The constructor from a 4x4 matrix reads the top three rows only: two matrices that
  agree there give equal transformations, whatever their bottom rows.
\<close>

theorem Transformation_of_Matrix4d_top_rows:
  "Transformation_of_Matrix4d ops
     (Matrix4d t00 t01 t02 t03  t10 t11 t12 t13  t20 t21 t22 t23  b0 b1 b2 b3) =
   Transformation_of_Matrix4d ops
     (Matrix4d t00 t01 t02 t03  t10 t11 t12 t13  t20 t21 t22 t23  c0 c1 c2 c3)"
  by (simp add: Transformation_of_Matrix4d_def)

section \<open>Point transformation\<close>

text \<open>
  C5. For a transformation storing the pair \<open>(C, r)\<close> and a homogeneous point \<open>p\<close>,
  \<open>T * p\<close> is the product of the 4x4 matrix of \<open>T\<close> with \<open>p\<close>: its first three
  components are \<open>C * p[0..2] + r * p[3]\<close> and its fourth is \<open>p[3]\<close>.
\<close>

theorem Transformation_mul_point_eq:
  "Transformation_mul_point \<lparr>C_ba = C, r_ab_inb = r\<rparr> p =
     mat4_vec4 (Transformation_matrix \<lparr>C_ba = C, r_ab_inb = r\<rparr>) p \<and>
   head3 (Transformation_mul_point \<lparr>C_ba = C, r_ab_inb = r\<rparr> p) =
     vec_add (mat_vec C (head3 p)) (vec_scal r (coeff3 p)) \<and>
   coeff3 (Transformation_mul_point \<lparr>C_ba = C, r_ab_inb = r\<rparr> p) = coeff3 p"
  by (cases C; cases r; cases p)
    (simp add: Transformation_mul_point_def Transformation_matrix_def Matrix4d_Identity_def
      algebra_simps)

section \<open>Composition\<close>

text \<open>
  C9. The composition operators of \<open>Rotation\<close> store exactly the matrix product (with the
  transpose of the right operand for the division operators), for all operands, orthonormal
  or not: none of them takes the exponential or logarithmic map, and none looks at the
  determinant.
\<close>

theorem Rotation_composition_exact:
  "rot_C_ba (Rotation_mul_assign R S) = mat_mul (rot_C_ba R) (rot_C_ba S) \<and>
   rot_C_ba (Rotation_mul R S) = mat_mul (rot_C_ba R) (rot_C_ba S) \<and>
   rot_C_ba (Rotation_div_assign R S) = mat_mul (rot_C_ba R) (transpose3 (rot_C_ba S)) \<and>
   rot_C_ba (Rotation_div R S) = mat_mul (rot_C_ba R) (transpose3 (rot_C_ba S))"
  by (simp add: Rotation_mul_assign_def Rotation_mul_def Rotation_div_assign_def
      Rotation_div_def)

text \<open>
  C6. For every transformation whose rotation is in SO(3), \<open>T * T.inverse()\<close> is the
  identity transformation: rotation \<open>I\<close>, translation 0.
\<close>

theorem Transformation_mul_inverse:
  assumes "is_SO3 (C_ba T)"
  shows "Transformation_mul ops T (Transformation_inverse ops T) = Transformation_default"
proof -
  let ?C = "C_ba T"
  have inv: "Transformation_inverse ops T =
      \<lparr>C_ba = transpose3 ?C, r_ab_inb = mat_vec (scal_mat (- 1) (transpose3 ?C)) (r_ab_inb T)\<rparr>"
    using assms
    by (simp add: Transformation_inverse_def Transformation_default_def reproject_def
        is_SO3_def determinant_transpose3)
  have CCt: "mat_mul ?C (transpose3 ?C) = Matrix3d_Identity"
    using assms by (simp add: is_SO3_def orthonormal_right)
  have tr: "vec_add (r_ab_inb T)
        (mat_vec ?C (mat_vec (scal_mat (- 1) (transpose3 ?C)) (r_ab_inb T))) = Vector3d_Zero"
    by (simp add: mat_vec_mat_vec mat_mul_scal_mat CCt vec_add_neg_Identity)
  show ?thesis
    unfolding inv
    by (simp add: Transformation_mul_def Transformation_mul_assign_def tr CCt
        reproject_SO3_id is_SO3_Identity Transformation_default_def)
qed

theorem Transformation_mul_inverse_witness:
  "is_SO3 (C_ba \<lparr>C_ba = quarter_turn, r_ab_inb = Vector3d 1 2 3\<rparr>) \<and>
   Transformation_mul sample_Operations \<lparr>C_ba = quarter_turn, r_ab_inb = Vector3d 1 2 3\<rparr>
     (Transformation_inverse sample_Operations
        \<lparr>C_ba = quarter_turn, r_ab_inb = Vector3d 1 2 3\<rparr>) = Transformation_default"
proof -
  have h: "is_SO3 (C_ba \<lparr>C_ba = quarter_turn, r_ab_inb = Vector3d 1 2 3\<rparr>)"
    by (simp add: is_SO3_quarter_turn)
  show ?thesis
    using h Transformation_mul_inverse [OF h, of sample_Operations] by simp
qed

text \<open>
  C10. The default-constructed \<open>Rotation\<close> holds the identity matrix, the
  default-constructed \<open>Transformation\<close> the identity matrix and the zero translation. The
  first is a two-sided identity of \<open>*\<close> for every rotation object, the second for every
  transformation whose rotation is in SO(3).
\<close>

theorem default_is_identity:
  "rot_C_ba Rotation_default = Matrix3d_Identity \<and>
   C_ba Transformation_default = Matrix3d_Identity \<and>
   r_ab_inb Transformation_default = Vector3d_Zero \<and>
   Rotation_mul R Rotation_default = R \<and>
   Rotation_mul Rotation_default R = R \<and>
   (is_SO3 (C_ba T) \<longrightarrow>
      Transformation_mul ops T Transformation_default = T \<and>
      Transformation_mul ops Transformation_default T = T)"
  by (simp add: Rotation_default_def Transformation_default_def Rotation_mul_def
      Rotation_mul_assign_def Transformation_mul_def Transformation_mul_assign_def
      mat_mul_Identity_left mat_mul_Identity_right mat_vec_Zero vec_add_Zero_right vec_add_Zero_left
      mat_vec_Identity reproject_SO3_id)

theorem default_is_identity_witness:
  "is_SO3 (C_ba \<lparr>C_ba = quarter_turn, r_ab_inb = Vector3d 1 2 3\<rparr>) \<and>
   Transformation_mul sample_Operations \<lparr>C_ba = quarter_turn, r_ab_inb = Vector3d 1 2 3\<rparr>
     Transformation_default = \<lparr>C_ba = quarter_turn, r_ab_inb = Vector3d 1 2 3\<rparr> \<and>
   Transformation_mul sample_Operations Transformation_default
     \<lparr>C_ba = quarter_turn, r_ab_inb = Vector3d 1 2 3\<rparr> =
     \<lparr>C_ba = quarter_turn, r_ab_inb = Vector3d 1 2 3\<rparr> \<and>
   Rotation_mul \<lparr>rot_C_ba = Matrix3d 2 0 0  0 3 0  0 0 5\<rparr> Rotation_default =
     \<lparr>rot_C_ba = Matrix3d 2 0 0  0 3 0  0 0 5\<rparr>"
proof -
  have h: "is_SO3 (C_ba \<lparr>C_ba = quarter_turn, r_ab_inb = Vector3d 1 2 3\<rparr>)"
    by (simp add: is_SO3_quarter_turn)
  show ?thesis
    using h default_is_identity [where ops = sample_Operations
        and T = "\<lparr>C_ba = quarter_turn, r_ab_inb = Vector3d 1 2 3\<rparr>"
        and R = "\<lparr>rot_C_ba = Matrix3d 2 0 0  0 3 0  0 0 5\<rparr>"]
    by simp
qed

section \<open>The invariant\<close>

lemma reachable_Rotation_SO3:
  assumes v2r: "\<And>v. is_SO3 (vec2rot ops v numTerms_default)"
  shows "reachable_Rotation ops R \<Longrightarrow> is_SO3 (rot_C_ba R)"
proof (induction rule: reachable_Rotation.induct)
  case (rot_reproject R)
  then show ?case by (simp add: Rotation_of_matrix_def v2r)
qed (simp_all add: Rotation_mul_def Rotation_mul_assign_def Rotation_div_def
      Rotation_div_assign_def Rotation_inverse_def is_SO3_mat_mul is_SO3_transpose3)

lemma reachable_Transformation_SO3:
  assumes v2r: "\<And>v. is_SO3 (vec2rot ops v numTerms_default)"
  shows "reachable_Transformation ops T \<Longrightarrow> is_SO3 (C_ba T)"
proof (induction rule: reachable_Transformation.induct)
  case (tf_valid T)
  then show ?case .
next
  case (tf_mul T U)
  then show ?case
    by (simp add: Transformation_mul_def Transformation_mul_assign_def reproject_SO3_id
        is_SO3_mat_mul)
next
  case (tf_mul_assign T U)
  then show ?case
    by (simp add: Transformation_mul_assign_def reproject_SO3_id is_SO3_mat_mul)
next
  case (tf_div T U)
  then show ?case
    by (simp add: Transformation_div_def Transformation_div_assign_def reproject_SO3_id
        is_SO3_mat_mul is_SO3_transpose3)
next
  case (tf_div_assign T U)
  then show ?case
    by (simp add: Transformation_div_assign_def reproject_SO3_id
        is_SO3_mat_mul is_SO3_transpose3)
next
  case (tf_inverse T)
  then show ?case
    by (simp add: Transformation_inverse_def reproject_SO3_id is_SO3_transpose3)
next
  case (tf_reproject T force)
  then show ?case by (simp add: reproject_is_SO3 v2r)
qed

text \<open>
  C7. Suppose \<open>vec2rot\<close>, as reprojection calls it, returns matrices of SO(3). Then every
  \<open>Rotation\<close> and every \<open>Transformation\<close> reachable from valid rotations by \<open>*\<close>, \<open>*=\<close>,
  \<open>/\<close>, \<open>/=\<close>, \<open>inverse\<close> and reprojection stores a matrix \<open>C\<close> with \<open>Ct * C = I\<close> and
  \<open>det C = 1\<close>, exactly and hence within every tolerance.
\<close>

theorem SO3_preserved:
  assumes "\<forall>v. is_SO3 (vec2rot ops v numTerms_default)"
  shows "(reachable_Rotation ops R \<longrightarrow> is_SO3 (rot_C_ba R)) \<and>
         (reachable_Transformation ops T \<longrightarrow> is_SO3 (C_ba T))"
  using assms reachable_Rotation_SO3 [of ops R] reachable_Transformation_SO3 [of ops T]
  by blast

theorem SO3_preserved_witness:
  "(\<forall>v. is_SO3 (vec2rot sample_Operations v numTerms_default)) \<and>
   reachable_Rotation sample_Operations
     (Rotation_div (Rotation_of_matrix sample_Operations Matrix3d_Identity True)
        (Rotation_inverse \<lparr>rot_C_ba = quarter_turn\<rparr>)) \<and>
   is_SO3 (rot_C_ba
     (Rotation_div (Rotation_of_matrix sample_Operations Matrix3d_Identity True)
        (Rotation_inverse \<lparr>rot_C_ba = quarter_turn\<rparr>))) \<and>
   reachable_Transformation sample_Operations
     (reproject sample_Operations True
        (Transformation_mul sample_Operations
           \<lparr>C_ba = quarter_turn, r_ab_inb = Vector3d 1 2 3\<rparr>
           (Transformation_inverse sample_Operations Transformation_default))) \<and>
   is_SO3 (C_ba
     (reproject sample_Operations True
        (Transformation_mul sample_Operations
           \<lparr>C_ba = quarter_turn, r_ab_inb = Vector3d 1 2 3\<rparr>
           (Transformation_inverse sample_Operations Transformation_default))))"
proof -
  have v2r: "\<forall>v. is_SO3 (vec2rot sample_Operations v numTerms_default)"
    by (simp add: sample_Operations_def is_SO3_quarter_turn)
  have q: "reachable_Rotation sample_Operations \<lparr>rot_C_ba = quarter_turn\<rparr>"
    by (rule rot_valid) (simp add: is_SO3_quarter_turn)
  have i: "reachable_Rotation sample_Operations \<lparr>rot_C_ba = Matrix3d_Identity\<rparr>"
    by (rule rot_valid) (simp add: is_SO3_Identity)
  have r: "reachable_Rotation sample_Operations
     (Rotation_div (Rotation_of_matrix sample_Operations Matrix3d_Identity True)
        (Rotation_inverse \<lparr>rot_C_ba = quarter_turn\<rparr>))"
    using rot_div [OF rot_reproject [OF i] rot_inverse [OF q]]
    by (simp add: Rotation_matrix_def)
  have tq: "reachable_Transformation sample_Operations
      \<lparr>C_ba = quarter_turn, r_ab_inb = Vector3d 1 2 3\<rparr>"
    by (rule tf_valid) (simp add: is_SO3_quarter_turn)
  have td: "reachable_Transformation sample_Operations Transformation_default"
    by (rule tf_valid) (simp add: Transformation_default_def is_SO3_Identity)
  have t: "reachable_Transformation sample_Operations
     (reproject sample_Operations True
        (Transformation_mul sample_Operations
           \<lparr>C_ba = quarter_turn, r_ab_inb = Vector3d 1 2 3\<rparr>
           (Transformation_inverse sample_Operations Transformation_default)))"
    by (rule tf_reproject [OF tf_mul [OF tq tf_inverse [OF td]]])
  show ?thesis
    using v2r r t SO3_preserved [OF v2r] by blast
qed

section \<open>The round trip through the so3 maps\<close>

lemma norm3_sq: "norm3 (Vector3d x y z) * norm3 (Vector3d x y z) = x * x + y * y + z * z"
  by simp

lemma rodrigues_trace:
  "trace (mat_add (mat_add Matrix3d_Identity (scal_mat a (skew (Vector3d x y z))))
            (scal_mat b (mat_mul (skew (Vector3d x y z)) (skew (Vector3d x y z)))))
   = 3 - 2 * b * (x * x + y * y + z * z)"
  by (simp add: Matrix3d_Identity_def algebra_simps)

lemma rodrigues_unskew:
  "unskew (mat_sub (mat_add (mat_add Matrix3d_Identity (scal_mat a (skew (Vector3d x y z))))
                      (scal_mat b (mat_mul (skew (Vector3d x y z)) (skew (Vector3d x y z)))))
             (transpose3 (mat_add (mat_add Matrix3d_Identity (scal_mat a (skew (Vector3d x y z))))
                      (scal_mat b (mat_mul (skew (Vector3d x y z)) (skew (Vector3d x y z)))))))
   = Vector3d (2 * a * x) (2 * a * y) (2 * a * z)"
  by (simp add: Matrix3d_Identity_def algebra_simps)

lemma round_trip_general:
  assumes pos: "0 < norm3 phi" and lt: "norm3 phi < pi"
    and a: "\<not> norm3 phi < tol_small_angle tol"
    and b: "\<not> norm3 phi < tol_near_zero tol"
    and c: "\<not> pi - norm3 phi < tol_near_pi tol"
  shows "rot2vec_spec tol (vec2rot_spec tol phi 0) = phi"
proof -
  obtain x y z where phi: "phi = Vector3d x y z" by (cases phi)
  define t where "t = norm3 (Vector3d x y z)"
  have t0: "0 < t" "t < pi" "t \<noteq> 0" using pos lt by (auto simp: t_def phi)
  have st: "sin t \<noteq> 0" using t0 sin_gt_zero [of t] by auto
  let ?R = "mat_add (mat_add Matrix3d_Identity (scal_mat (sin t / t) (skew (Vector3d x y z))))
      (scal_mat ((1 - cos t) / (t * t)) (mat_mul (skew (Vector3d x y z)) (skew (Vector3d x y z))))"
  have R: "vec2rot_spec tol (Vector3d x y z) 0 = ?R"
    using a by (simp add: vec2rot_spec_def phi t_def Let_def del: norm3.simps)
  have tt: "t * t = x * x + y * y + z * z"
    unfolding t_def by simp
  have "trace ?R = 3 - 2 * ((1 - cos t) / (t * t)) * (t * t)"
    by (simp only: rodrigues_trace tt)
  also have "\<dots> = 1 + 2 * cos t"
    using t0 by simp
  finally have tr: "trace ?R = 1 + 2 * cos t" .
  have cl: "clamp ((trace ?R - 1) / 2) (- 1) 1 = cos t"
    unfolding tr clamp_def using cos_ge_minus_one [of t] cos_le_one [of t]
    by (simp add: not_less)
  have th: "arccos (clamp ((trace ?R - 1) / 2) (- 1) 1) = t"
    unfolding cl using t0 by (simp add: arccos_cos)
  have "rot2vec_spec tol ?R = vec_scal (unskew (mat_sub ?R (transpose3 ?R))) (t / (2 * sin t))"
    using b c unfolding rot2vec_spec_def th Let_def
    by (simp add: t_def phi del: norm3.simps mat_add.simps mat_sub.simps)
  also have "\<dots> = vec_scal (Vector3d (2 * (sin t / t) * x) (2 * (sin t / t) * y)
                       (2 * (sin t / t) * z)) (t / (2 * sin t))"
    by (simp only: rodrigues_unskew)
  also have "\<dots> = Vector3d x y z"
    using t0 st by simp
  finally have "rot2vec_spec tol ?R = Vector3d x y z" .
  then show ?thesis by (simp only: R phi)
qed


lemma round_trip_small:
  assumes "norm3 phi < tol_small_angle tol" and "0 < tol_near_zero tol"
  shows "rot2vec_spec tol (vec2rot_spec tol phi 0) = Vector3d_Zero"
proof -
  have "vec2rot_spec tol phi 0 = Matrix3d_Identity"
    using assms(1) by (simp add: vec2rot_spec_def)
  moreover have "rot2vec_spec tol Matrix3d_Identity = Vector3d_Zero"
    using assms(2) by (simp add: rot2vec_spec_def Matrix3d_Identity_def clamp_def)
  ultimately show ?thesis by simp
qed

lemma norm3_scaled:
  assumes sq: "x * x + y * y + z * z = pi * pi"
  shows "norm3 (Vector3d (x * w / (pi * pi)) (y * w / (pi * pi)) (z * w / (pi * pi))) = \<bar>w\<bar> / pi"
proof -
  have "x * w / (pi * pi) * (x * w / (pi * pi)) + y * w / (pi * pi) * (y * w / (pi * pi))
        + z * w / (pi * pi) * (z * w / (pi * pi))
      = (x * x + y * y + z * z) * (w * w) / ((pi * pi) * (pi * pi))"
    by (simp add: field_simps)
  also have "\<dots> = (w / pi) * (w / pi)"
    unfolding sq by simp
  finally show ?thesis
    by (simp add: real_sqrt_mult flip: power2_eq_square)
qed

lemma axis_of_scaled:
  assumes sq: "x * x + y * y + z * z = pi * pi" and w: "w \<noteq> 0"
  shows "vec_scal
           (vec_scal (Vector3d (x * w / (pi * pi)) (y * w / (pi * pi)) (z * w / (pi * pi)))
              (1 / norm3 (Vector3d (x * w / (pi * pi)) (y * w / (pi * pi)) (z * w / (pi * pi)))))
           pi
         = (if 0 < w then Vector3d x y z else Vector3d (- x) (- y) (- z))"
  unfolding norm3_scaled [OF sq] using w
  by (simp add: field_simps abs_if)

lemma half_turn_matrix:
  assumes sq: "x * x + y * y + z * z = pi * pi"
  shows "scal_mat (1 / 2)
           (mat_add
              (mat_add (mat_add Matrix3d_Identity (scal_mat 0 (skew (Vector3d x y z))))
                 (scal_mat (2 / (pi * pi))
                    (mat_mul (skew (Vector3d x y z)) (skew (Vector3d x y z)))))
              Matrix3d_Identity)
         = Matrix3d (x * x / (pi * pi)) (x * y / (pi * pi)) (x * z / (pi * pi))
                    (y * x / (pi * pi)) (y * y / (pi * pi)) (y * z / (pi * pi))
                    (z * x / (pi * pi)) (z * y / (pi * pi)) (z * z / (pi * pi))"
proof -
  have a: "1 - (y * y + z * z) / (pi * pi) = x * x / (pi * pi)"
    using sq by (simp add: field_simps)
  have b: "1 - (x * x + z * z) / (pi * pi) = y * y / (pi * pi)"
    using sq by (simp add: field_simps)
  have c: "1 - (x * x + y * y) / (pi * pi) = z * z / (pi * pi)"
    using sq by (simp add: field_simps)
  have "scal_mat (1 / 2)
           (mat_add
              (mat_add (mat_add Matrix3d_Identity (scal_mat 0 (skew (Vector3d x y z))))
                 (scal_mat (2 / (pi * pi))
                    (mat_mul (skew (Vector3d x y z)) (skew (Vector3d x y z)))))
              Matrix3d_Identity)
        = Matrix3d (1 - (y * y + z * z) / (pi * pi)) (x * y / (pi * pi)) (x * z / (pi * pi))
            (y * x / (pi * pi)) (1 - (x * x + z * z) / (pi * pi)) (y * z / (pi * pi))
            (z * x / (pi * pi)) (z * y / (pi * pi)) (1 - (x * x + y * y) / (pi * pi))"
    by (simp add: Matrix3d_Identity_def field_simps)
  then show ?thesis by (simp only: a b c)
qed


lemma self_mult_le_0:
  fixes a :: real
  assumes "a * a \<le> 0"
  shows "a = 0"
proof -
  have "a * a = 0" using assms zero_le_square [of a] by linarith
  then show ?thesis by simp
qed

lemma self_mult_not_less_0: "\<not> (a::real) * a < 0"
  using zero_le_square [of a] by linarith

lemma dominant_cases: "dominant B = 0 \<or> dominant B = 1 \<or> dominant B = 2"
  by (cases B) simp

lemma dominant_0:
  "dominant (Matrix3d b00 b01 b02 b10 b11 b12 b20 b21 b22) = 0 \<Longrightarrow> b11 \<le> b00 \<and> b22 \<le> b00"
  by (simp split: if_splits)

lemma dominant_1:
  "dominant (Matrix3d b00 b01 b02 b10 b11 b12 b20 b21 b22) = 1 \<Longrightarrow>
     b22 \<le> b11 \<and> (b00 < b11 \<or> b00 < b22)"
  by (auto split: if_splits)

lemma dominant_2:
  "dominant (Matrix3d b00 b01 b02 b10 b11 b12 b20 b21 b22) = 2 \<Longrightarrow>
     b11 < b22 \<and> (b00 < b11 \<or> b00 < b22)"
  by (auto split: if_splits)

lemma round_trip_half_turn:
  assumes n: "norm3 phi = pi"
    and a: "\<not> pi < tol_small_angle tol"
    and b: "\<not> pi < tol_near_zero tol"
    and c: "0 < tol_near_pi tol"
  shows "rot2vec_spec tol (vec2rot_spec tol phi 0) = phi \<or>
         rot2vec_spec tol (vec2rot_spec tol phi 0) = vec_scal phi (- 1)"
proof -
  obtain x y z where phi: "phi = Vector3d x y z" by (cases phi)
  have sq: "x * x + y * y + z * z = pi * pi"
    using n norm3_sq [of x y z] by (simp add: phi)
  let ?R = "mat_add (mat_add Matrix3d_Identity (scal_mat 0 (skew (Vector3d x y z))))
      (scal_mat (2 / (pi * pi)) (mat_mul (skew (Vector3d x y z)) (skew (Vector3d x y z))))"
  let ?B = "Matrix3d (x * x / (pi * pi)) (x * y / (pi * pi)) (x * z / (pi * pi))
                    (y * x / (pi * pi)) (y * y / (pi * pi)) (y * z / (pi * pi))
                    (z * x / (pi * pi)) (z * y / (pi * pi)) (z * z / (pi * pi))"
  have n': "norm3 (Vector3d x y z) = pi" using n by (simp add: phi)
  have R: "vec2rot_spec tol (Vector3d x y z) 0 = ?R"
    using a unfolding vec2rot_spec_def Let_def n' by simp
  have "trace ?R = 3 - 2 * (2 / (pi * pi)) * (pi * pi)"
    by (simp only: rodrigues_trace sq)
  then have tr: "trace ?R = - 1" by simp
  have th: "arccos (clamp ((trace ?R - 1) / 2) (- 1) 1) = pi"
    unfolding tr by (simp add: clamp_def)
  have axis: "near_pi_axis ?R = vec_scal (col ?B (dominant ?B)) (1 / norm3 (col ?B (dominant ?B)))"
    unfolding near_pi_axis_def half_turn_matrix [OF sq] Let_def ..
  have log: "rot2vec_spec tol ?R = vec_scal (near_pi_axis ?R) pi"
    using b c unfolding rot2vec_spec_def th Let_def by simp
  have pp: "0 < pi * pi" by simp
  consider (k0) "dominant ?B = 0" | (k1) "dominant ?B = 1" | (k2) "dominant ?B = 2"
    using dominant_cases [of ?B] by (elim disjE)
  then have "vec_scal (near_pi_axis ?R) pi = Vector3d x y z \<or>
             vec_scal (near_pi_axis ?R) pi = Vector3d (- x) (- y) (- z)"
  proof cases
    case k0
    then have le: "y * y \<le> x * x" "z * z \<le> x * x"
      using dominant_0 [OF k0] pp by (simp_all add: divide_le_cancel)
    have "x \<noteq> 0"
    proof
      assume "x = 0"
      with le have "y = 0" "z = 0"
        by (simp_all add: self_mult_le_0)
      with \<open>x = 0\<close> sq pp show False by simp
    qed
    then show ?thesis
      unfolding axis k0 using axis_of_scaled [OF sq, of x] by (simp split: if_splits)
  next
    case k1
    then have le: "z * z \<le> y * y" "x * x < y * y \<or> x * x < z * z"
      using dominant_1 [OF k1] pp by (simp_all add: divide_le_cancel divide_less_cancel)
    have "y \<noteq> 0"
    proof
      assume y0: "y = 0"
      with le(1) have z0: "z = 0" by (simp add: self_mult_le_0)
      with le(2) y0 have "x * x < 0" by simp
      then show False by (simp add: self_mult_not_less_0)
    qed
    then show ?thesis
      unfolding axis k1 using axis_of_scaled [OF sq, of y] by (simp split: if_splits)
  next
    case k2
    then have lt: "y * y < z * z"
      using dominant_2 [OF k2] pp by (simp_all add: divide_less_cancel)
    have "z \<noteq> 0"
    proof
      assume "z = 0"
      with lt have "y * y < 0" by simp
      then show False by (simp add: self_mult_not_less_0)
    qed
    then show ?thesis
      unfolding axis k2 using axis_of_scaled [OF sq, of z] by (simp split: if_splits)
  qed
  then show ?thesis
    unfolding phi R log by simp
qed

text \<open>
  The concrete scenario of section 8: the quarter turn about z and its logarithm.
\<close>

lemma norm3_axis_z: "norm3 (Vector3d 0 0 z) = \<bar>z\<bar>"
  by (simp flip: power2_eq_square)

lemma norm3_axis_x: "norm3 (Vector3d x 0 0) = \<bar>x\<bar>"
  by (simp flip: power2_eq_square)

lemma vec2rot_spec_quarter_turn:
  "vec2rot_spec sample_Tolerances (Vector3d 0 0 (pi / 2)) 0 = quarter_turn"
proof -
  have n: "norm3 (Vector3d 0 0 (pi / 2)) = pi / 2"
    unfolding norm3_axis_z by simp
  have p: "\<not> pi / 2 < 1 / 1000000" using pi_ge_two by simp
  show ?thesis
    unfolding vec2rot_spec_def Let_def n using p
    by (simp add: sample_Tolerances_def quarter_turn_def Matrix3d_Identity_def)
qed

lemma rot2vec_spec_quarter_turn:
  "rot2vec_spec sample_Tolerances quarter_turn = Vector3d 0 0 (pi / 2)"
proof -
  have "\<not> pi / 2 < 1 / 1000000" "\<not> pi - pi / 2 < 1 / 1000000" using pi_ge_two by simp_all
  then show ?thesis
    by (simp add: rot2vec_spec_def sample_Tolerances_def quarter_turn_def clamp_def)
qed

text \<open>
  Below the small-angle tolerance the round trip gives the zero vector, so for every
  positive choice of the tolerances some vector of norm less than pi does not come back.
\<close>

lemma round_trip_fails_for_every_tolerance:
  assumes "0 < tol_small_angle tol" and "0 < tol_near_zero tol"
  shows "\<exists>phi. norm3 phi < pi \<and> rot2vec_spec tol (vec2rot_spec tol phi 0) \<noteq> phi"
proof -
  define x where "x = min (tol_small_angle tol / 2) 1"
  have x: "0 < x" "x < tol_small_angle tol" "x < pi"
    using assms(1) pi_ge_two by (auto simp: x_def min_def)
  have n: "norm3 (Vector3d x 0 0) = x"
    unfolding norm3_axis_x using x by simp
  have "rot2vec_spec tol (vec2rot_spec tol (Vector3d x 0 0) 0) = Vector3d_Zero"
    by (rule round_trip_small) (simp_all add: n x assms del: norm3.simps)
  then have "rot2vec_spec tol (vec2rot_spec tol (Vector3d x 0 0) 0) \<noteq> Vector3d x 0 0"
    using x by (simp add: Vector3d_Zero_def)
  then show ?thesis using n x by metis
qed

text \<open>
  At the half turn about the negative z axis the round trip returns the opposite vector.
\<close>

lemma vec2rot_spec_half_turn:
  "vec2rot_spec sample_Tolerances (Vector3d 0 0 (- pi)) 0 = Matrix3d (- 1) 0 0  0 (- 1) 0  0 0 1"
proof -
  have n: "norm3 (Vector3d 0 0 (- pi)) = pi"
    unfolding norm3_axis_z by simp
  have p: "\<not> pi < 1 / 1000000" using pi_ge_two by simp
  show ?thesis
    unfolding vec2rot_spec_def Let_def n using p
    by (simp add: sample_Tolerances_def Matrix3d_Identity_def)
qed

lemma round_trip_half_turn_flips:
  "rot2vec_spec sample_Tolerances (vec2rot_spec sample_Tolerances (Vector3d 0 0 (- pi)) 0)
     = Vector3d 0 0 pi"
proof -
  have p: "\<not> pi < 1 / 1000000" using pi_ge_two by simp
  show ?thesis
    unfolding vec2rot_spec_half_turn using p
    by (simp add: rot2vec_spec_def near_pi_axis_def sample_Tolerances_def clamp_def
        Matrix3d_Identity_def)
qed

text \<open>
  C4 (as amended). With the two so3 maps as the specification describes them, and
  \<open>Rotation(phi, 0).vec()\<close> the round trip: when the norm of \<open>phi\<close> is positive, less than
  pi and outside the three tolerance bands (not below the small-angle tolerance of
  \<open>vec2rot\<close>, not near 0 and not near pi for \<open>rot2vec\<close>), the round trip returns \<open>phi\<close>;
  when the norm is below the small-angle tolerance it returns the zero vector; when the norm
  is exactly pi it returns \<open>phi\<close> or \<open>- phi\<close>.
\<close>

theorem Rotation_vec_round_trip:
  "(0 < norm3 phi \<and> norm3 phi < pi \<and> \<not> norm3 phi < tol_small_angle tol \<and>
      \<not> norm3 phi < tol_near_zero tol \<and> \<not> pi - norm3 phi < tol_near_pi tol \<longrightarrow>
      Rotation_vec (spec_so3 tol ops) (Rotation_of_aaxis (spec_so3 tol ops) phi 0) = phi) \<and>
   (norm3 phi < tol_small_angle tol \<and> 0 < tol_near_zero tol \<longrightarrow>
      Rotation_vec (spec_so3 tol ops) (Rotation_of_aaxis (spec_so3 tol ops) phi 0)
        = Vector3d_Zero) \<and>
   (norm3 phi = pi \<and> \<not> pi < tol_small_angle tol \<and> \<not> pi < tol_near_zero tol \<and>
      0 < tol_near_pi tol \<longrightarrow>
      Rotation_vec (spec_so3 tol ops) (Rotation_of_aaxis (spec_so3 tol ops) phi 0) = phi \<or>
      Rotation_vec (spec_so3 tol ops) (Rotation_of_aaxis (spec_so3 tol ops) phi 0)
        = vec_scal phi (- 1))"
proof -
  have rt: "Rotation_vec (spec_so3 tol ops) (Rotation_of_aaxis (spec_so3 tol ops) phi 0)
      = rot2vec_spec tol (vec2rot_spec tol phi 0)"
    by (simp add: Rotation_vec_def Rotation_of_aaxis_def spec_so3_def)
  show ?thesis
    unfolding rt
    using round_trip_general [of phi tol] round_trip_small [of phi tol]
      round_trip_half_turn [of phi tol]
    by blast
qed

theorem Rotation_vec_round_trip_witness:
  "norm3 (Vector3d 0 0 (pi / 2)) = pi / 2 \<and>
   Rotation_vec (spec_so3 sample_Tolerances sample_Operations)
     (Rotation_of_aaxis (spec_so3 sample_Tolerances sample_Operations)
        (Vector3d 0 0 (pi / 2)) 0) = Vector3d 0 0 (pi / 2) \<and>
   norm3 (Vector3d (1 / 10000000) 0 0) = 1 / 10000000 \<and>
   Rotation_vec (spec_so3 sample_Tolerances sample_Operations)
     (Rotation_of_aaxis (spec_so3 sample_Tolerances sample_Operations)
        (Vector3d (1 / 10000000) 0 0) 0) = Vector3d_Zero \<and>
   norm3 (Vector3d 0 0 (- pi)) = pi \<and>
   (Rotation_vec (spec_so3 sample_Tolerances sample_Operations)
     (Rotation_of_aaxis (spec_so3 sample_Tolerances sample_Operations)
        (Vector3d 0 0 (- pi)) 0) = Vector3d 0 0 (- pi) \<or>
    Rotation_vec (spec_so3 sample_Tolerances sample_Operations)
     (Rotation_of_aaxis (spec_so3 sample_Tolerances sample_Operations)
        (Vector3d 0 0 (- pi)) 0) = vec_scal (Vector3d 0 0 (- pi)) (- 1))"
proof -
  have n1: "norm3 (Vector3d 0 0 (pi / 2)) = pi / 2"
    unfolding norm3_axis_z by simp
  have n2: "norm3 (Vector3d (1 / 10000000) 0 0) = 1 / 10000000"
    unfolding norm3_axis_x by simp
  have n3: "norm3 (Vector3d 0 0 (- pi)) = pi"
    unfolding norm3_axis_z by simp
  have p: "\<not> pi / 2 < 1 / 1000000" "\<not> pi - pi / 2 < 1 / 1000000" "\<not> pi < 1 / 1000000"
    using pi_ge_two by simp_all
  show ?thesis
    using n1 n2 n3 p
      Rotation_vec_round_trip [of "Vector3d 0 0 (pi / 2)" sample_Tolerances sample_Operations]
      Rotation_vec_round_trip [of "Vector3d (1 / 10000000) 0 0" sample_Tolerances sample_Operations]
      Rotation_vec_round_trip [of "Vector3d 0 0 (- pi)" sample_Tolerances sample_Operations]
    by (simp add: sample_Tolerances_def del: norm3.simps)
qed

text \<open>
  C4 as stated fails: a vector of norm \<open>1e-7\<close>, which is less than pi, is below the
  small-angle tolerance \<open>1e-6\<close> and comes back as the zero vector.
\<close>

theorem round_trip_fails_below_tolerance:
  "norm3 (Vector3d (1 / 10000000) 0 0) < pi \<and>
   Rotation_vec (spec_so3 sample_Tolerances sample_Operations)
     (Rotation_of_aaxis (spec_so3 sample_Tolerances sample_Operations)
        (Vector3d (1 / 10000000) 0 0) 0) \<noteq> Vector3d (1 / 10000000) 0 0"
proof -
  have n2: "norm3 (Vector3d (1 / 10000000) 0 0) = 1 / 10000000"
    unfolding norm3_axis_x by simp
  have "rot2vec_spec sample_Tolerances
          (vec2rot_spec sample_Tolerances (Vector3d (1 / 10000000) 0 0) 0) = Vector3d_Zero"
    by (rule round_trip_small) (simp_all add: n2 sample_Tolerances_def del: norm3.simps)
  moreover have "1 / 10000000 < pi" using pi_ge_two by simp
  ultimately show ?thesis
    by (simp add: n2 Rotation_vec_def Rotation_of_aaxis_def spec_so3_def Vector3d_Zero_def
        del: norm3.simps)
qed

end
